theory Spec2Isabelle
  imports Complex_Main "HOL-Library.Product_Lexorder" "HOL-Library.Multiset"
begin

section \<open>Python values\<close>

text \<open>
  Exceptions are values.  \<open>RequestError\<close> stands for whatever \<open>SaiGQLClient.query\<close>
  raises (an HTTP error, a timeout, the \<open>RuntimeError\<close> of an error payload); it carries
  the text \<open>str(e)\<close> that the handlers put into their replies.
\<close>

datatype error = ValueError | TypeError | AttributeError | RequestError string

text \<open>
  A key of a JSON object read with \<open>dict.get\<close>: the key is not there, it is there with
  the value \<open>null\<close>, or it is there with a value of the type the query asks for.
\<close>

datatype 'a field = Absent | Null | Val 'a

text \<open>
  \<open>xs[a:b]\<close> on a list or a string: a negative bound counts from the end, and both bounds
  are clamped to the length, so a slice never raises.
\<close>

definition py_slice :: "'a list \<Rightarrow> int \<Rightarrow> int \<Rightarrow> 'a list" where
  "py_slice xs a b =
     (let n = int (length xs);
          lo = (if a < 0 then max 0 (a + n) else min a n);
          hi = (if b < 0 then max 0 (b + n) else min b n)
      in take (nat (hi - lo)) (drop (nat lo) xs))"

section \<open>The page computation\<close>

text \<open>
  \<open>send_trades_page\<close> (lines 232 to 235, with \<open>start_idx = page * page_size\<close>) and
  \<open>format_prices\<close> (lines 149 to 151) compute a page with the same three statements:
  \<^verbatim>\<open>
    end_idx = min(start_idx + page_size, len(items))
    page_items = items[start_idx:end_idx]
    has_more = end_idx < len(items)
  \<close>
  \<open>page_window\<close> is that block; it returns the page, \<open>end_idx\<close> and \<open>has_more\<close>.
\<close>

definition page_window :: "'a list \<Rightarrow> int \<Rightarrow> int \<Rightarrow> 'a list \<times> int \<times> bool" where
  "page_window items start_idx page_size =
     (let end_idx = min (start_idx + page_size) (int (length items));
          page_items = py_slice items start_idx end_idx;
          has_more = end_idx < int (length items)
      in (page_items, end_idx, has_more))"

text \<open>
  The user who presses "Next" as long as the button is offered: page \<open>page\<close> is shown,
  and when \<open>has_more\<close> holds the button carries \<open>page + 1\<close>.  The pages seen are
  concatenated.  With a page size of 0 the button never goes away, so the loop is partial.
\<close>

partial_function (option) collect_pages :: "'a list \<Rightarrow> int \<Rightarrow> int \<Rightarrow> 'a list option" where
  "collect_pages items page_size page =
     (let w = page_window items (page * page_size) page_size
      in if snd (snd w)
         then Option.bind (collect_pages items page_size (page + 1)) (\<lambda>rest. Some (fst w @ rest))
         else Some (fst w))"

section \<open>The Python runtime\<close>

text \<open>
  What the Python runtime does with numbers and with text beyond ASCII is a parameter of the
  model: \<open>str(x)\<close> of a number (as in \<open>f"{x}"\<close>), the format specifications \<open>,.2f\<close>,
  \<open>.2f\<close>, \<open>.4f\<close> and \<open>.8f\<close>, \<open>str(e)\<close> of an exception, \<open>str.upper\<close> and \<open>int\<close> on a text
  that holds a character beyond ASCII, and the limit \<open>sys.get_int_max_str_digits()\<close> on the
  digits that \<open>int\<close> reads (0 for no limit, 4300 by default where the limit exists).
  Every theorem holds for every such runtime.
\<close>

record render =
  str_num :: "rat \<Rightarrow> string"
  fmt_comma_2f :: "rat \<Rightarrow> string"
  fmt_2f :: "rat \<Rightarrow> string"
  fmt_4f :: "rat \<Rightarrow> string"
  fmt_8f :: "rat \<Rightarrow> string"
  str_exc :: "error \<Rightarrow> string"
  upper_beyond_ascii :: "string \<Rightarrow> string"
  int_beyond_ascii :: "string \<Rightarrow> error + int"
  int_max_str_digits :: nat

section \<open>Strings\<close>

text \<open>
  A Python \<open>str\<close> is modelled as a \<open>string\<close>, the bytes of its UTF-8 encoding; an ASCII
  text is its own encoding, character by character.  On an ASCII text \<open>str.upper\<close> maps the
  letters a to z; on any other text it is what the runtime says.
\<close>

definition is_ascii :: "char \<Rightarrow> bool" where
  "is_ascii c \<longleftrightarrow> \<not> digit7 c"

definition upper_char :: "char \<Rightarrow> char" where
  "upper_char c =
     (case map_of (zip ''abcdefghijklmnopqrstuvwxyz'' ''ABCDEFGHIJKLMNOPQRSTUVWXYZ'') c of
        Some d \<Rightarrow> d
      | None \<Rightarrow> c)"

definition upper :: "render \<Rightarrow> string \<Rightarrow> string" where
  "upper R s = (if list_all is_ascii s then map upper_char s else upper_beyond_ascii R s)"

text \<open>
  \<open>str.lower\<close> is used once, in \<open>args[0].lower() == "next"\<close>.  It maps the letters A to Z;
  a text with a character beyond ASCII is left as it is, and is not \<open>"next"\<close> (no character
  beyond ASCII has n, e, x or t as its lower case).
\<close>

definition lower_char :: "char \<Rightarrow> char" where
  "lower_char c =
     (case map_of (zip ''ABCDEFGHIJKLMNOPQRSTUVWXYZ'' ''abcdefghijklmnopqrstuvwxyz'') c of
        Some d \<Rightarrow> d
      | None \<Rightarrow> c)"

definition lower :: "string \<Rightarrow> string" where
  "lower s = map lower_char s"

section \<open>The records of the data source\<close>

text \<open>
  The objects that the GraphQL queries of \<open>graphql.py\<close> select, one record per selection
  set and one \<open>field\<close> per key.  The key \<open>id\<close> is \<open>tok_id\<close> in a token and \<open>trade_id\<close>
  in a trade, \<open>name\<close> and \<open>symbol\<close> are \<open>tok_name\<close> and \<open>tok_symbol\<close>, \<open>oracle\<close> is
  \<open>oracle_key\<close>.  Amounts and prices are rationals.
\<close>

record token =
  tok_id :: "int field"
  tok_name :: "string field"
  tok_symbol :: "string field"

record block_ref =
  block :: "int field"
  block_ts :: "string field"

record trade_state =
  positionValue :: "rat field"
  liquidationPrice :: "rat field"
  pnlCollateral :: "rat field"
  pnlPct :: "rat field"

record market =
  marketId :: "int field"
  baseToken :: "token field"
  quoteToken :: "token field"

record trade =
  trade_id :: "int field"
  trader :: "string field"
  isOpen :: "bool field"
  isLong :: "bool field"
  leverage :: "rat field"
  openPrice :: "rat field"
  closePrice :: "rat field"
  openCollateralAmount :: "rat field"
  collateralAmount :: "rat field"
  openBlock :: "block_ref field"
  closeBlock :: "block_ref field"
  state :: "trade_state field"
  perpBorrowing :: "market field"

record price =
  priceUsd :: "rat field"
  token :: "token field"
  lastUpdatedBlock :: "block_ref field"

record perp_data =
  trades :: "trade list field"

record trades_data =
  perp :: "perp_data field"

record oracle_data =
  tokenPricesUsd :: "price list field"

record prices_data =
  oracle_key :: "oracle_data field"

text \<open>The empty dict \<open>{}\<close>, read as a token, a block, a state or a market: no key is there.\<close>

definition empty_token :: token where
  "empty_token = \<lparr>tok_id = Absent, tok_name = Absent, tok_symbol = Absent\<rparr>"

definition empty_block :: block_ref where
  "empty_block = \<lparr>block = Absent, block_ts = Absent\<rparr>"

definition empty_state :: trade_state where
  "empty_state = \<lparr>positionValue = Absent, liquidationPrice = Absent,
                   pnlCollateral = Absent, pnlPct = Absent\<rparr>"

definition empty_market :: market where
  "empty_market = \<lparr>marketId = Absent, baseToken = Absent, quoteToken = Absent\<rparr>"

text \<open>
  \<open>d.get(k) or {}\<close> and \<open>d.get(k, "") or ""\<close>: the default replaces an absent key, a
  \<open>null\<close> and a falsy value, and the only falsy dict or string is the default itself.
\<close>

definition or_else :: "'a field \<Rightarrow> 'a \<Rightarrow> 'a" where
  "or_else f d = (case f of Val v \<Rightarrow> v | _ \<Rightarrow> d)"

text \<open>
  \<open>d.get(k, {})\<close> followed by \<open>.get\<close>: the default replaces an absent key only; a
  \<open>null\<close> comes back as \<open>None\<close>, and \<open>None.get\<close> raises \<open>AttributeError\<close>.
\<close>

definition get_dict :: "'a field \<Rightarrow> 'a \<Rightarrow> error + 'a" where
  "get_dict f d = (case f of Absent \<Rightarrow> Inr d | Null \<Rightarrow> Inl AttributeError | Val v \<Rightarrow> Inr v)"

section \<open>The data source client (graphql.py)\<close>

text \<open>
  \<open>SaiGQLClient.query\<close> is the boundary: it is a parameter of the model, a function from
  the variables of the query to an exception or the \<open>data\<close> object of the reply.
\<close>

type_synonym trades_query = "string \<times> bool option \<times> int \<Rightarrow> error + trades_data"
type_synonym prices_query = "int \<Rightarrow> error + prices_data"

text \<open>
  The condition of the list comprehension of \<open>fetch_trades\<close>, line 74:
  \<open>(t.get("perpBorrowing", {}).get("baseToken", {}).get("symbol", "") or "").upper()\<close>.
\<close>

definition base_symbol_upper_of :: "render \<Rightarrow> trade \<Rightarrow> error + string" where
  "base_symbol_upper_of R t =
     (case get_dict (perpBorrowing t) empty_market of
        Inl e \<Rightarrow> Inl e
      | Inr m \<Rightarrow>
          (case get_dict (baseToken m) empty_token of
             Inl e \<Rightarrow> Inl e
           | Inr tk \<Rightarrow> Inr (upper R (or_else (tok_symbol tk) []))))"

fun filter_trades :: "render \<Rightarrow> string \<Rightarrow> trade list \<Rightarrow> error + trade list" where
  "filter_trades R base_symbol_upper [] = Inr []"
| "filter_trades R base_symbol_upper (t # ts) =
     (case base_symbol_upper_of R t of
        Inl e \<Rightarrow> Inl e
      | Inr s \<Rightarrow>
          (case filter_trades R base_symbol_upper ts of
             Inl e \<Rightarrow> Inl e
           | Inr kept \<Rightarrow> Inr (if s = base_symbol_upper then t # kept else kept)))"

text \<open>
  \<open>fetch_trades\<close>.  The result \<open>Inr None\<close> is Python's \<open>None\<close>, returned when the reply
  has \<open>"trades": null\<close> and no filter is given; with a filter the comprehension
  iterates over \<open>None\<close> and raises \<open>TypeError\<close>.
\<close>

definition fetch_trades ::
    "render \<Rightarrow> trades_query \<Rightarrow> string \<Rightarrow> bool option \<Rightarrow> int \<Rightarrow> string option \<Rightarrow> error + trade list option" where
  "fetch_trades R query trader_addr is_open limit base_symbol =
     (case query (trader_addr, is_open, limit) of
        Inl e \<Rightarrow> Inl e
      | Inr data \<Rightarrow>
          (case get_dict (perp data) \<lparr>trades = Absent\<rparr> of
             Inl e \<Rightarrow> Inl e
           | Inr p \<Rightarrow>
               (let fetched = (case trades p of Absent \<Rightarrow> Some [] | Null \<Rightarrow> None | Val ts \<Rightarrow> Some ts)
                in case base_symbol of
                     None \<Rightarrow> Inr fetched
                   | Some b \<Rightarrow>
                       if b = [] then Inr fetched
                       else (case fetched of
                               None \<Rightarrow> Inl TypeError
                             | Some ts \<Rightarrow> map_sum id Some (filter_trades R (upper R b) ts)))))"

definition fetch_prices :: "prices_query \<Rightarrow> int \<Rightarrow> error + price list option" where
  "fetch_prices query limit =
     (case query limit of
        Inl e \<Rightarrow> Inl e
      | Inr data \<Rightarrow>
          (case get_dict (oracle_key data) \<lparr>tokenPricesUsd = Absent\<rparr> of
             Inl e \<Rightarrow> Inl e
           | Inr p \<Rightarrow>
               Inr (case tokenPricesUsd p of Absent \<Rightarrow> Some [] | Null \<Rightarrow> None | Val ps \<Rightarrow> Some ps)))"

text \<open>The \<open>for\<close> loop of \<open>fetch_price_by_symbol\<close>, lines 98 to 102.\<close>

fun scan_prices :: "render \<Rightarrow> string \<Rightarrow> price list \<Rightarrow> price option" where
  "scan_prices R symbol_upper [] = None"
| "scan_prices R symbol_upper (p # ps) =
     (let tk = or_else (token p) empty_token
      in if upper R (or_else (tok_symbol tk) []) = symbol_upper then Some p
         else scan_prices R symbol_upper ps)"

definition fetch_price_by_symbol ::
    "render \<Rightarrow> prices_query \<Rightarrow> string \<Rightarrow> error + price option" where
  "fetch_price_by_symbol R query symbol =
     (case fetch_prices query 200 of
        Inl e \<Rightarrow> Inl e
      | Inr None \<Rightarrow> Inl TypeError
      | Inr (Some prices) \<Rightarrow> Inr (scan_prices R (upper R symbol) prices))"

text \<open>
  What the claims call the base-asset symbol of a trade and the symbol of a price record:
  the text under \<open>perpBorrowing.baseToken.symbol\<close> and under \<open>token.symbol\<close>, and the empty
  text where a key on the way is missing or \<open>null\<close>.
\<close>

definition base_symbol_text :: "trade \<Rightarrow> string" where
  "base_symbol_text t =
     (case perpBorrowing t of
        Val m \<Rightarrow> (case baseToken m of
                    Val tk \<Rightarrow> (case tok_symbol tk of Val s \<Rightarrow> s | _ \<Rightarrow> [])
                  | _ \<Rightarrow> [])
      | _ \<Rightarrow> [])"

definition price_symbol_text :: "price \<Rightarrow> string" where
  "price_symbol_text p =
     (case token p of
        Val tk \<Rightarrow> (case tok_symbol tk of Val s \<Rightarrow> s | _ \<Rightarrow> [])
      | _ \<Rightarrow> [])"

text \<open>
  Sample records for the worked examples: a trade and a price with the given symbol, and a
  trade whose market has \<open>"baseToken": null\<close>.
\<close>

definition sample_token :: "int field \<Rightarrow> string field \<Rightarrow> token" where
  "sample_token i s = \<lparr>tok_id = i, tok_name = Absent, tok_symbol = s\<rparr>"

definition sample_trade :: "int \<Rightarrow> string \<Rightarrow> trade" where
  "sample_trade i s =
     \<lparr>trade_id = Val i, trader = Absent, isOpen = Val True, isLong = Val True,
      leverage = Val 2, openPrice = Val 100, closePrice = Null,
      openCollateralAmount = Val 5000000, collateralAmount = Val 5000000,
      openBlock = Absent, closeBlock = Null, state = Null,
      perpBorrowing = Val \<lparr>marketId = Val 1, baseToken = Val (sample_token (Val 7) (Val s)),
                             quoteToken = Null\<rparr>\<rparr>"

definition sample_price :: "int field \<Rightarrow> string field \<Rightarrow> price" where
  "sample_price i s =
     \<lparr>priceUsd = Val 1, token = Val (sample_token i s), lastUpdatedBlock = Absent\<rparr>"

definition null_base_trade :: "int \<Rightarrow> trade" where
  "null_base_trade i =
     \<lparr>trade_id = Val i, trader = Absent, isOpen = Val True, isLong = Val True,
      leverage = Val 2, openPrice = Val 100, closePrice = Null,
      openCollateralAmount = Val 5000000, collateralAmount = Val 5000000,
      openBlock = Absent, closeBlock = Null, state = Null,
      perpBorrowing = Val \<lparr>marketId = Val 1, baseToken = Null, quoteToken = Null\<rparr>\<rparr>"

section \<open>Text rendering\<close>

text \<open>\<open>str(i)\<close> of an integer, in decimal.\<close>

fun digits10 :: "nat \<Rightarrow> string" where
  "digits10 n =
     (if n < 10 then [''0123456789'' ! n]
      else digits10 (n div 10) @ [''0123456789'' ! (n mod 10)])"

definition str_int :: "int \<Rightarrow> string" where
  "str_int i = (if i < 0 then CHR ''-'' # digits10 (nat (- i)) else digits10 (nat i))"

text \<open>\<open>d.get(k)\<close>: \<open>None\<close> for an absent key and for a \<open>null\<close>.\<close>

definition get :: "'a field \<Rightarrow> 'a option" where
  "get f = (case f of Val v \<Rightarrow> Some v | _ \<Rightarrow> None)"

text \<open>\<open>f"{x}"\<close> of a value that may be \<open>None\<close>.\<close>

definition str_opt :: "('a \<Rightarrow> string) \<Rightarrow> 'a option \<Rightarrow> string" where
  "str_opt str x = (case x of None \<Rightarrow> ''None'' | Some v \<Rightarrow> str v)"

text \<open>\<open>f"{d.get(k, '?')}"\<close> for an integer key: the default replaces an absent key only.\<close>

definition str_int_or_qm :: "int field \<Rightarrow> string" where
  "str_int_or_qm f = (case f of Absent \<Rightarrow> ''?'' | Null \<Rightarrow> ''None'' | Val i \<Rightarrow> str_int i)"

text \<open>\<open>s or d\<close> for a text key read with \<open>d.get(k)\<close>: the empty text is falsy.\<close>

definition str_or :: "string field \<Rightarrow> string \<Rightarrow> string" where
  "str_or f d = (case f of Val s \<Rightarrow> (if s = [] then d else s) | _ \<Rightarrow> d)"

text \<open>\<open>sep.join(lines)\<close>.\<close>

fun join :: "string \<Rightarrow> string list \<Rightarrow> string" where
  "join sep [] = []"
| "join sep [l] = l"
| "join sep (l # ls) = l @ sep @ join sep ls"

text \<open>
  The list comprehension \<open>[f(t) for t in ts]\<close> with an \<open>f\<close> that may raise: the first
  exception ends it.
\<close>

fun comprehension :: "('a \<Rightarrow> error + 'b) \<Rightarrow> 'a list \<Rightarrow> error + 'b list" where
  "comprehension f [] = Inr []"
| "comprehension f (t # ts) =
     (case f t of
        Inl e \<Rightarrow> Inl e
      | Inr y \<Rightarrow> (case comprehension f ts of Inl e \<Rightarrow> Inl e | Inr ys \<Rightarrow> Inr (y # ys)))"

text \<open>The non-ASCII literals of the source, as their UTF-8 bytes.\<close>

definition heavy_rule :: string where
  "heavy_rule = concat (replicate 20 [CHR 0xE2, CHR 0x94, CHR 0x81])"

definition green_circle :: string where
  "green_circle = [CHR 0xF0, CHR 0x9F, CHR 0x9F, CHR 0xA2]"

definition red_circle :: string where
  "red_circle = [CHR 0xF0, CHR 0x9F, CHR 0x94, CHR 0xB4]"

definition check_mark :: string where
  "check_mark = [CHR 0xE2, CHR 0x9C, CHR 0x85]"

definition cross_mark :: string where
  "cross_mark = [CHR 0xE2, CHR 0x9D, CHR 0x8C]"

definition money_bag :: string where
  "money_bag = [CHR 0xF0, CHR 0x9F, CHR 0x92, CHR 0xB0]"

definition bullet :: string where
  "bullet = [CHR 0xE2, CHR 0x80, CHR 0xA2]"

section \<open>The record formatters (main.py)\<close>

text \<open>
  \<open>"Market: base/quote (ID: market_id)"\<close>, lines 27 to 32 and 51, the same in both trade
  formatters.  \<open>trade.get("perpBorrowing", {})\<close> is \<open>None\<close> for a \<open>null\<close>, and the
  \<open>mkt.get\<close> that follows raises.
\<close>

definition market_line :: "trade \<Rightarrow> error + string" where
  "market_line trade =
     (case get_dict (perpBorrowing trade) empty_market of
        Inl e \<Rightarrow> Inl e
      | Inr mkt \<Rightarrow>
          (let base_token = or_else (baseToken mkt) empty_token;
               quote_token = or_else (quoteToken mkt) empty_token;
               base = str_or (tok_symbol base_token) (str_or (tok_name base_token) ''?'');
               quote = str_or (tok_symbol quote_token) (str_or (tok_name quote_token) ''?'');
               market_id = str_int_or_qm (marketId mkt)
           in Inr (''Market: '' @ base @ ''/'' @ quote @ '' (ID: '' @ market_id @ '')'')))"

definition side_text :: "trade \<Rightarrow> string" where
  "side_text trade =
     (if isLong trade = Val True then green_circle @ '' Long'' else red_circle @ '' Short'')"

text \<open>\<open>if x:\<close> for a number read with \<open>d.get(k)\<close>: \<open>None\<close> and zero are falsy.\<close>

definition truthy_num :: "rat option \<Rightarrow> bool" where
  "truthy_num x = (case x of None \<Rightarrow> False | Some v \<Rightarrow> v \<noteq> 0)"

definition format_trade_open :: "render \<Rightarrow> trade \<Rightarrow> error + string" where
  "format_trade_open R trade =
     (case market_line trade of
        Inl e \<Rightarrow> Inl e
      | Inr market_text \<Rightarrow>
          (let leverage_v = get (leverage trade);
               open_price = get (openPrice trade);
               collateral = get (collateralAmount trade);
               open_collateral = get (openCollateralAmount trade);
               st = or_else (state trade) empty_state;
               position_value = get (positionValue st);
               liquidation_price = get (liquidationPrice st);
               pnl = get (pnlCollateral st);
               pnl_pct = get (pnlPct st);
               open_block = or_else (openBlock trade) empty_block;
               open_ts = get (block_ts open_block);
               lines =
                 [heavy_rule,
                  ''Trade #'' @ str_int_or_qm (trade_id trade) @ '' | '' @ check_mark @ '' OPEN'',
                  market_text,
                  ''Side: '' @ side_text trade @ '' | Leverage: '' @ str_opt (str_num R) leverage_v @ ''x'',
                  ''Entry Price: '' @ str_opt (str_num R) open_price]
                 @ (if truthy_num liquidation_price
                    then [''Liquidation Price: '' @ str_opt (str_num R) liquidation_price] else [])
                 @ (case position_value of
                      None \<Rightarrow> []
                    | Some v \<Rightarrow> [''Position Value: $'' @ fmt_comma_2f R (v / 10 ^ 6)])
                 @ (case pnl of
                      None \<Rightarrow> []
                    | Some v \<Rightarrow>
                        [''PnL: '' @ (if v / 10 ^ 6 \<ge> 0 then ''+'' else []) @ ''$''
                           @ fmt_comma_2f R (v / 10 ^ 6)])
                 @ (case pnl_pct of
                      None \<Rightarrow> []
                    | Some v \<Rightarrow> [''PnL %: '' @ (if v \<ge> 0 then ''+'' else []) @ fmt_2f R v @ ''%''])
                 @ (case open_collateral of
                      None \<Rightarrow> []
                    | Some v \<Rightarrow> if v \<noteq> 0 then [''Collateral: '' @ fmt_comma_2f R (v / 10 ^ 6)] else [])
                 @ (case collateral of
                      None \<Rightarrow> []
                    | Some v \<Rightarrow>
                        if v \<noteq> 0 \<and> Some v \<noteq> open_collateral
                        then [''Current Collateral: '' @ fmt_comma_2f R (v / 10 ^ 6)] else [])
                 @ (case open_ts of
                      None \<Rightarrow> []
                    | Some ts \<Rightarrow> if ts \<noteq> [] then [''Opened: '' @ ts] else [])
           in Inr (join [CHR 0x0A] lines)))"

definition format_trade_closed :: "render \<Rightarrow> trade \<Rightarrow> error + string" where
  "format_trade_closed R trade =
     (case market_line trade of
        Inl e \<Rightarrow> Inl e
      | Inr market_text \<Rightarrow>
          (let leverage_v = get (leverage trade);
               open_price = get (openPrice trade);
               close_price = get (closePrice trade);
               open_collateral = get (openCollateralAmount trade);
               open_block = or_else (openBlock trade) empty_block;
               close_block = or_else (closeBlock trade) empty_block;
               open_ts = get (block_ts open_block);
               close_ts = get (block_ts close_block);
               lines =
                 [heavy_rule,
                  ''Trade #'' @ str_int_or_qm (trade_id trade) @ '' | '' @ cross_mark @ '' CLOSED'',
                  market_text,
                  ''Side: '' @ side_text trade @ '' | Leverage: '' @ str_opt (str_num R) leverage_v @ ''x'',
                  ''Entry Price: '' @ str_opt (str_num R) open_price]
                 @ (if truthy_num close_price
                    then [''Exit Price: '' @ str_opt (str_num R) close_price] else [])
                 @ (case open_collateral of
                      None \<Rightarrow> []
                    | Some v \<Rightarrow> if v \<noteq> 0 then [''Collateral: '' @ fmt_comma_2f R (v / 10 ^ 6)] else [])
                 @ (case open_ts of
                      None \<Rightarrow> []
                    | Some ts \<Rightarrow> if ts \<noteq> [] then [''Opened: '' @ ts] else [])
                 @ (case close_ts of
                      None \<Rightarrow> []
                    | Some ts \<Rightarrow> if ts \<noteq> [] then [''Closed: '' @ ts] else [])
           in Inr (join [CHR 0x0A] lines)))"

text \<open>The price text of lines 160 to 165 and 180 to 185.\<close>

definition price_str :: "render \<Rightarrow> rat \<Rightarrow> string" where
  "price_str R p =
     (if p \<ge> 1 then ''$'' @ fmt_comma_2f R p
      else if p \<ge> 1 / 100 then ''$'' @ fmt_4f R p
      else ''$'' @ fmt_8f R p)"

definition format_price_single :: "render \<Rightarrow> price \<Rightarrow> string" where
  "format_price_single R price_data =
     (let tk = or_else (token price_data) empty_token;
          symbol = str_or (tok_symbol tk) (str_or (tok_name tk) ''?'')
      in case get (priceUsd price_data) of
           None \<Rightarrow> ''Price not available for '' @ symbol
         | Some p \<Rightarrow> money_bag @ '' '' @ symbol @ '': '' @ price_str R p)"

text \<open>
  For the worked examples: a runtime that writes a number as numerator, slash, denominator
  whatever the format (the examples hold ASCII text only, so what it does beyond ASCII does not
  matter), and a trade and a price whose optional keys are absent or \<open>null\<close>.
\<close>

definition sample_render :: render where
  "sample_render =
     (let frac = (\<lambda>x. str_int (fst (quotient_of x)) @ ''/'' @ str_int (snd (quotient_of x)))
      in \<lparr>str_num = frac, fmt_comma_2f = frac, fmt_2f = frac, fmt_4f = frac, fmt_8f = frac,
          str_exc = (\<lambda>e. case e of RequestError m \<Rightarrow> m | _ \<Rightarrow> ''error''),
          upper_beyond_ascii = (\<lambda>s. s),
          int_beyond_ascii = (\<lambda>s. Inl ValueError),
          int_max_str_digits = 4300\<rparr>)"

definition bare_trade :: trade where
  "bare_trade =
     \<lparr>trade_id = Val 7, trader = Absent, isOpen = Val False, isLong = Null,
      leverage = Val 3, openPrice = Val 100, closePrice = Null,
      openCollateralAmount = Val 5000000, collateralAmount = Null,
      openBlock = Absent, closeBlock = Null, state = Null,
      perpBorrowing = Val \<lparr>marketId = Val 1,
                             baseToken = Val \<lparr>tok_id = Val 2, tok_name = Null, tok_symbol = Absent\<rparr>,
                             quoteToken = Null\<rparr>\<rparr>"

definition bare_price :: price where
  "bare_price = \<lparr>priceUsd = Null, token = Val \<lparr>tok_id = Val 2, tok_name = Null, tok_symbol = Absent\<rparr>,
                  lastUpdatedBlock = Absent\<rparr>"

section \<open>The price page (format_prices)\<close>

definition POPULAR_TOKENS :: "string list" where
  "POPULAR_TOKENS = [''BTC'', ''ETH'', ''USDT'', ''USDC'', ''NIBI'', ''ATOM'', ''SOL'', ''BNB'',
                     ''AVAX'', ''MATIC'']"

text \<open>\<open>xs.index(x)\<close> for an \<open>x\<close> that is in \<open>xs\<close>: the position of its first occurrence.\<close>

fun index_of :: "'a \<Rightarrow> 'a list \<Rightarrow> nat" where
  "index_of x [] = 0"
| "index_of x (y # ys) = (if x = y then 0 else Suc (index_of x ys))"

text \<open>
  The local function \<open>sort_key\<close> of \<open>format_prices\<close>.  The second component is \<open>None\<close>
  when the token has \<open>"id": null\<close>: \<open>token.get("id", 9999)\<close> replaces an absent key only.
\<close>

definition sort_key_of :: "render \<Rightarrow> price \<Rightarrow> int \<times> int option" where
  "sort_key_of R p =
     (let tk = or_else (token p) empty_token;
          symbol = upper R (or_else (tok_symbol tk) [])
      in if symbol \<in> set POPULAR_TOKENS then (0, Some (int (index_of symbol POPULAR_TOKENS)))
         else (1, case tok_id tk of Absent \<Rightarrow> Some 9999 | Null \<Rightarrow> None | Val i \<Rightarrow> Some i))"

text \<open>
  \<open>sorted(prices, key=sort_key)\<close>.  Python compares two key tuples by their first
  components when these differ; when they are equal it compares the second components, which
  are equal, or two integers, or \<open>None\<close> and an integer, and then \<open><\<close> raises \<open>TypeError\<close>.
  A sort cannot place two records whose keys it has not told apart, so it raises as soon as two
  keys of the list are not comparable; otherwise it is a stable sort by the key.
\<close>

definition comparable :: "int \<times> int option \<Rightarrow> int \<times> int option \<Rightarrow> bool" where
  "comparable k1 k2 \<longleftrightarrow> fst k1 \<noteq> fst k2 \<or> (snd k1 = None \<longleftrightarrow> snd k2 = None)"

definition total_key :: "int \<times> int option \<Rightarrow> int \<times> int" where
  "total_key k = (fst k, case snd k of None \<Rightarrow> 0 | Some i \<Rightarrow> i)"

definition sorted_prices :: "render \<Rightarrow> price list \<Rightarrow> error + price list" where
  "sorted_prices R prices =
     (if list_all (\<lambda>p. list_all (\<lambda>q. comparable (sort_key_of R p) (sort_key_of R q)) prices) prices
      then Inr (sort_key (\<lambda>p. total_key (sort_key_of R p)) prices)
      else Inl TypeError)"

text \<open>One line of the price page, lines 155 to 166; no line for a price that is \<open>None\<close>.\<close>

definition price_line :: "render \<Rightarrow> price \<Rightarrow> string list" where
  "price_line R p =
     (let tk = or_else (token p) empty_token;
          tid = get (tok_id tk);
          symbol = str_or (tok_symbol tk) (str_or (tok_name tk) (''Token '' @ str_opt str_int tid))
      in case get (priceUsd p) of
           None \<Rightarrow> []
         | Some v \<Rightarrow> [bullet @ '' '' @ symbol @ '': '' @ price_str R v])"

definition format_prices :: "render \<Rightarrow> price list \<Rightarrow> int \<Rightarrow> int \<Rightarrow> error + string \<times> bool" where
  "format_prices R prices start_idx page_size =
     (if prices = [] then Inr (''No prices found.'', False)
      else case sorted_prices R prices of
             Inl e \<Rightarrow> Inl e
           | Inr sorted_ps \<Rightarrow>
               (case page_window sorted_ps start_idx page_size of
                  (page_prices, end_idx, has_more) \<Rightarrow>
                    (let msg_lines =
                           [money_bag @ '' Oracle Prices (Top '' @ str_int end_idx @ '' of ''
                              @ str_int (int (length sorted_ps)) @ '')'' @ [CHR 0x0A]]
                           @ concat (map (price_line R) page_prices)
                     in Inr (join [CHR 0x0A] msg_lines, has_more))))"

section \<open>The conversation (main.py)\<close>

text \<open>
  \<open>context.user_data\<close> is a dict from text keys to the lists of trades stored by
  \<open>trades_cmd\<close> and to the page counter stored under \<open>"prices_page"\<close>.
\<close>

datatype stored = VTrades "trade list" | VInt int

type_synonym user_data = "string \<rightharpoonup> stored"

text \<open>
  What a handler does to the outside, in order: the answer to a callback query, a fetch of
  the price list from the data source, a reply, an edit of the message of the callback query,
  a line of the error log.  A reply or an edit carries its text and the \<open>callback_data\<close> of
  the "Next" button, or \<open>None\<close> when there is no button.  The channel is not modelled as
  failing.
\<close>

datatype effect =
    Answer
  | Fetch_prices int
  | Reply_text string "string option"
  | Edit_message_text string "string option"
  | Log_error string

text \<open>
  A handler returns the new \<open>user_data\<close>, its effects, and the exception that leaves it, if
  any.
\<close>

type_synonym outcome = "user_data \<times> effect list \<times> error option"

definition startswith :: "string \<Rightarrow> string \<Rightarrow> bool" where
  "startswith s prefix \<longleftrightarrow> take (length prefix) s = prefix"

text \<open>\<open>s.split(c, maxsplit)\<close> for a separator of one character.\<close>

fun split :: "char \<Rightarrow> nat \<Rightarrow> string \<Rightarrow> string list" where
  "split c 0 s = [s]"
| "split c (Suc n) s =
     (case dropWhile (\<lambda>x. x \<noteq> c) s of
        [] \<Rightarrow> [s]
      | _ # rest \<Rightarrow> takeWhile (\<lambda>x. x \<noteq> c) s # split c n rest)"

text \<open>
  \<open>int(s)\<close> on an ASCII text: the white space around the number (space, tab, line feed,
  vertical tab, form feed, carriage return) is dropped, a sign may come first, and the rest is
  decimal digits, with single underscores allowed between digits.  Anything else raises
  \<open>ValueError\<close>, and so do more than 640 digits when they exceed the limit of the runtime.  On a
  text with a character beyond ASCII, \<open>int\<close> is what the runtime says.
\<close>

definition is_space :: "char \<Rightarrow> bool" where
  "is_space c \<longleftrightarrow> c \<in> set [CHR 0x20, CHR 0x09, CHR 0x0A, CHR 0x0B, CHR 0x0C, CHR 0x0D]"

definition strip :: "string \<Rightarrow> string" where
  "strip s = rev (dropWhile is_space (rev (dropWhile is_space s)))"

definition digit_value :: "char \<Rightarrow> nat option" where
  "digit_value c = map_of (zip ''0123456789'' [0, 1, 2, 3, 4, 5, 6, 7, 8, 9]) c"

fun digits_value :: "nat \<Rightarrow> string \<Rightarrow> nat option" where
  "digits_value acc [] = Some acc"
| "digits_value acc (c # cs) =
     (if c = CHR ''_''
      then (case cs of
              [] \<Rightarrow> None
            | d # ds \<Rightarrow> if d = CHR ''_'' then None else digits_value acc cs)
      else (case digit_value c of
              None \<Rightarrow> None
            | Some v \<Rightarrow> digits_value (10 * acc + v) cs))"

definition py_int :: "render \<Rightarrow> string \<Rightarrow> error + int" where
  "py_int R s =
     (if \<not> list_all is_ascii s then int_beyond_ascii R s
      else
        (let t = strip s;
             negative = (t \<noteq> [] \<and> hd t = CHR ''-'');
             body = (if t \<noteq> [] \<and> (hd t = CHR ''-'' \<or> hd t = CHR ''+'') then tl t else t);
             digits = length (filter (\<lambda>c. c \<noteq> CHR ''_'') body)
         in if body = [] \<or> hd body = CHR ''_'' then Inl ValueError
            else (case digits_value 0 body of
                    None \<Rightarrow> Inl ValueError
                  | Some n \<Rightarrow>
                      if 640 < digits \<and> 0 < int_max_str_digits R \<and> int_max_str_digits R < digits
                      then Inl ValueError
                      else Inr (if negative then - int n else int n))))"

text \<open>\<open>send_trades_page\<close>: one reply or one edit, unless a formatter raises.\<close>

definition send_trades_page ::
    "render \<Rightarrow> string \<Rightarrow> trade list \<Rightarrow> string \<Rightarrow> int \<Rightarrow> int \<Rightarrow> bool \<Rightarrow> error + effect" where
  "send_trades_page R address trade_list trade_type page page_size is_edit =
     (let last6 = drop (length address - 6) address;
          addr_display =
            (if startswith address ''0x'' then take 8 address @ ''...'' @ last6
             else take 10 address @ ''...'' @ last6)
      in case (if trade_type = ''open'' then comprehension (format_trade_open R) trade_list
               else comprehension (format_trade_closed R) trade_list) of
           Inl e \<Rightarrow> Inl e
         | Inr formatted_trades \<Rightarrow>
             (let header =
                    (if trade_type = ''open'' then check_mark @ '' OPEN TRADES for '' @ addr_display
                     else cross_mark @ '' CLOSED TRADES for '' @ addr_display)
              in case page_window formatted_trades (page * page_size) page_size of
                   (page_trades, end_idx, has_more) \<Rightarrow>
                     (let result = header @ [CHR 0x0A] @ ''('' @ str_int end_idx @ '' of ''
                                     @ str_int (int (length formatted_trades)) @ '')''
                                     @ [CHR 0x0A, CHR 0x0A] @ join [CHR 0x0A, CHR 0x0A] page_trades;
                          reply_markup =
                            (if has_more
                             then Some (''trades_next:'' @ address @ '':'' @ trade_type @ '':''
                                          @ str_int (page + 1))
                             else None)
                      in Inr (if is_edit then Edit_message_text result reply_markup
                              else Reply_text result reply_markup))))"

text \<open>
  \<open>context.user_data.get("prices_page", 0) + 1\<close>; adding 1 to a stored list raises
  \<open>TypeError\<close>.
\<close>

definition next_prices_page :: "user_data \<Rightarrow> error + int" where
  "next_prices_page user_data =
     (case user_data ''prices_page'' of
        None \<Rightarrow> Inr (0 + 1)
      | Some (VInt n) \<Rightarrow> Inr (n + 1)
      | Some (VTrades ts) \<Rightarrow> Inl TypeError)"

text \<open>
  Lines 326 to 336 and 381 to 390: fetch the price list, format the page that starts at
  \<open>page * 10\<close>, and send it with a "Next" button when there is more.  \<open>format_prices\<close>
  takes \<open>None\<close> as it takes the empty list: both fail \<open>if not prices\<close>.
\<close>

definition fetch_and_format ::
    "render \<Rightarrow> prices_query \<Rightarrow> int \<Rightarrow> effect list \<times> (error + string \<times> string option)" where
  "fetch_and_format R query page =
     ([Fetch_prices 200],
      case fetch_prices query 200 of
        Inl e \<Rightarrow> Inl e
      | Inr prices \<Rightarrow>
          (case format_prices R (case prices of None \<Rightarrow> [] | Some ps \<Rightarrow> ps) (page * 10) 10 of
             Inl e \<Rightarrow> Inl e
           | Inr (text, has_more) \<Rightarrow> Inr (text, if has_more then Some ''prices_next'' else None)))"

definition prices_cmd :: "render \<Rightarrow> prices_query \<Rightarrow> string list \<Rightarrow> user_data \<Rightarrow> outcome" where
  "prices_cmd R query args user_data =
     (let handler = (\<lambda>e. [Log_error (''Error fetching prices: '' @ str_exc R e),
                           Reply_text (''Error fetching prices: '' @ str_exc R e) None])
      in case (if args \<noteq> [] \<and> lower (hd args) = ''next''
               then map_sum id (\<lambda>page. (page, user_data(''prices_page'' \<mapsto> VInt page)))
                      (next_prices_page user_data)
               else Inr (0, user_data)) of
           Inl e \<Rightarrow> (user_data, handler e, None)
         | Inr (page, user_data') \<Rightarrow>
             (case fetch_and_format R query page of
                (fetched, Inl e) \<Rightarrow> (user_data', fetched @ handler e, None)
              | (fetched, Inr (text, reply_markup)) \<Rightarrow>
                  (user_data', fetched @ [Reply_text text reply_markup], None)))"

definition expired_message :: effect where
  "expired_message = Edit_message_text ''Trades data expired. Please run /trades again.'' None"

text \<open>
  \<open>callback_handler\<close>.  The argument is \<open>update.callback_query\<close>: \<open>None\<close>, or a query
  with its \<open>data\<close>, which may itself be \<open>None\<close>.
\<close>

definition callback_handler ::
    "render \<Rightarrow> prices_query \<Rightarrow> string option option \<Rightarrow> user_data \<Rightarrow> outcome" where
  "callback_handler R query callback_query user_data =
     (case callback_query of
        None \<Rightarrow> (user_data, [], None)
      | Some data \<Rightarrow>
          if data = Some ''prices_next'' then
            (case next_prices_page user_data of
               Inl e \<Rightarrow> (user_data, [Answer], Some e)
             | Inr page \<Rightarrow>
                 (let user_data' = user_data(''prices_page'' \<mapsto> VInt page)
                  in case fetch_and_format R query page of
                       (fetched, Inl e) \<Rightarrow>
                         (user_data',
                          [Answer] @ fetched @ [Log_error (''Error fetching prices: '' @ str_exc R e),
                                                Edit_message_text (''Error: '' @ str_exc R e) None],
                          None)
                     | (fetched, Inr (text, reply_markup)) \<Rightarrow>
                         (user_data', [Answer] @ fetched @ [Edit_message_text text reply_markup], None)))
          else
            (case data of
               None \<Rightarrow> (user_data, [Answer], None)
             | Some d \<Rightarrow>
                 if d \<noteq> [] \<and> startswith d ''trades_next:'' then
                   (let parts = split CHR '':'' 3 d
                    in if length parts = 4 then
                         (let address = parts ! 1; trade_type = parts ! 2; page_str = parts ! 3
                          in case py_int R page_str of
                               Inl e \<Rightarrow> (user_data, [Answer], Some e)
                             | Inr page \<Rightarrow>
                                 (case user_data (''trades_'' @ trade_type @ ''_'' @ address) of
                                    None \<Rightarrow> (user_data, [Answer, expired_message], None)
                                  | Some (VTrades []) \<Rightarrow> (user_data, [Answer, expired_message], None)
                                  | Some (VTrades (t # ts)) \<Rightarrow>
                                      (case send_trades_page R address (t # ts) trade_type page 5 True of
                                         Inl e \<Rightarrow> (user_data, [Answer], Some e)
                                       | Inr sent \<Rightarrow> (user_data, [Answer, sent], None))
                                  | Some (VInt n) \<Rightarrow>
                                      if n = 0 then (user_data, [Answer, expired_message], None)
                                      else (user_data, [Answer], Some TypeError)))
                       else (user_data, [Answer], None))
                 else (user_data, [Answer], None)))"

text \<open>
  The words of the ordering claim: a record is popular when its symbol, in upper case, is in
  the allow-list, and its rank is the position of the symbol there; the id a record is ordered
  by is its token id, and 9999 when there is no token or no id in it.  An id that is \<open>null\<close>
  counts as 9999 as well: records with such an id are only ever ordered among themselves.
\<close>

definition popular :: "render \<Rightarrow> price \<Rightarrow> bool" where
  "popular R p \<longleftrightarrow> upper R (price_symbol_text p) \<in> set POPULAR_TOKENS"

definition popular_rank :: "render \<Rightarrow> price \<Rightarrow> nat" where
  "popular_rank R p = index_of (upper R (price_symbol_text p)) POPULAR_TOKENS"

definition id_is_null :: "price \<Rightarrow> bool" where
  "id_is_null p \<longleftrightarrow> (case token p of Val tk \<Rightarrow> tok_id tk = Null | _ \<Rightarrow> False)"

definition id_or_sentinel :: "price \<Rightarrow> int" where
  "id_or_sentinel p =
     (case token p of
        Val tk \<Rightarrow> (case tok_id tk of Val i \<Rightarrow> i | _ \<Rightarrow> 9999)
      | _ \<Rightarrow> 9999)"

section \<open>Pagination: the claims\<close>

lemma py_slice_nonneg:
  assumes "0 \<le> a" and "0 \<le> b"
  shows "py_slice xs a b = drop (nat a) (take (nat b) xs)"
proof (cases "a < int (length xs)")
  case False
  then show ?thesis using assms by (simp add: py_slice_def Let_def)
next
  case alt: True
  show ?thesis
  proof (cases "b \<le> int (length xs)")
    case True
    then show ?thesis using assms alt
      by (simp add: py_slice_def Let_def drop_take nat_diff_distrib')
  next
    case False
    then have "length xs - nat a \<le> nat b - nat a" using assms alt by linarith
    then show ?thesis using assms alt False
      by (simp add: py_slice_def Let_def drop_take nat_diff_distrib')
  qed
qed

lemma page_window_nonneg:
  assumes "0 \<le> s" and "0 \<le> k"
  shows "page_window xs s k = (drop (nat s) (take (nat s + nat k) xs), min (s + k) (int (length xs)), s + k < int (length xs))"
proof -
  have "drop (nat s) (take (nat (min (s + k) (int (length xs)))) xs) = drop (nat s) (take (nat s + nat k) xs)"
    using assms by (simp add: min_def nat_add_distrib)
  then show ?thesis
    using assms by (auto simp add: page_window_def Let_def py_slice_nonneg)
qed

text \<open>
  Claim C1.  For a non-negative page index and a positive page size, the page has
  \<open>min(pageSize, max(0, totalCount - pageIndex * pageSize))\<close> items, it is the slice of
  the list from \<open>pageIndex * pageSize\<close> up to \<open>min(pageIndex * pageSize + pageSize, totalCount)\<close>,
  \<open>has_more\<close> holds exactly when that end is below \<open>totalCount\<close>, and a page that starts
  at or after the end of the list is empty (a value is returned: the computation cannot raise).
\<close>

theorem page_window_page:
  assumes "0 \<le> page" and "0 < page_size"
  shows "case page_window items (page * page_size) page_size of
           (page_items, end_idx, has_more) \<Rightarrow>
             int (length page_items) = min page_size (max 0 (int (length items) - page * page_size))
           \<and> end_idx = min (page * page_size + page_size) (int (length items))
           \<and> page_items = drop (nat (page * page_size)) (take (nat end_idx) items)
           \<and> (\<forall>i < length page_items. page_items ! i = items ! (nat (page * page_size) + i))
           \<and> (has_more \<longleftrightarrow> end_idx < int (length items))
           \<and> (int (length items) \<le> page * page_size \<longrightarrow> page_items = [] \<and> \<not> has_more)"
proof -
  let ?s = "page * page_size" and ?n = "int (length items)"
  let ?W = "drop (nat ?s) (take (nat ?s + nat page_size) items)"
  have s: "0 \<le> ?s" using assms by simp
  have k: "0 \<le> page_size" using assms by simp
  have p1: "int (length ?W) = min page_size (max 0 (?n - ?s))"
    using s k by (simp add: min_def max_def) linarith
  have p2: "?W = drop (nat ?s) (take (nat (min (?s + page_size) ?n)) items)"
    using s k by (simp add: min_def nat_add_distrib)
  have p3: "\<forall>i < length ?W. ?W ! i = items ! (nat ?s + i)"
    by simp
  have p4: "(?s + page_size < ?n) \<longleftrightarrow> (min (?s + page_size) ?n < ?n)"
    by auto
  have p5: "?n \<le> ?s \<longrightarrow> ?W = [] \<and> \<not> ?s + page_size < ?n"
    using s k by auto
  show ?thesis
    unfolding page_window_nonneg [OF s k] prod.case
    using p1 p2 p3 p4 p5 by blast
qed

theorem page_window_page_witness:
  "(0::int) \<le> 2 \<and> (0::int) < 5
   \<and> page_window [1, 2, 3, 4, 5, 6, 7, 8, 9, 10, 11, 12 :: nat] (2 * 5) 5 = ([11, 12], 12, False)"
proof -
  have h1: "(0::int) \<le> 2" and h2: "(0::int) < 5" by simp_all
  show ?thesis
    using page_window_page [OF h1 h2, of "[1, 2, 3, 4, 5, 6, 7, 8, 9, 10, 11, 12 :: nat]"]
    by (simp add: page_window_def py_slice_def split: prod.splits)
qed

lemma collect_pages_from:
  assumes "0 < page_size" and "0 \<le> page"
  shows "collect_pages items page_size page = Some (drop (nat (page * page_size)) items)"
  using assms(2)
proof (induction "nat (int (length items) - page * page_size)" arbitrary: page rule: less_induct)
  case less
  have s: "0 \<le> page * page_size" using assms(1) less.prems by simp
  have k: "0 \<le> page_size" using assms by simp
  show ?case
  proof (cases "page * page_size + page_size < int (length items)")
    case True
    have m: "nat (int (length items) - (page + 1) * page_size) < nat (int (length items) - page * page_size)"
      using True assms(1) by (simp add: algebra_simps)
    have ih: "collect_pages items page_size (page + 1) = Some (drop (nat ((page + 1) * page_size)) items)"
      using less.hyps [OF m] less.prems by simp
    have n: "nat ((page + 1) * page_size) = nat (page * page_size) + nat page_size"
      using s k by (simp add: algebra_simps nat_add_distrib)
    have t: "drop (nat (page * page_size)) (take (nat (page * page_size) + nat page_size) items)
             = take (nat page_size) (drop (nat (page * page_size)) items)"
      by (simp add: drop_take)
    have d: "drop (nat (page * page_size) + nat page_size) items
             = drop (nat page_size) (drop (nat (page * page_size)) items)"
      by (simp add: add.commute)
    have "drop (nat (page * page_size)) (take (nat (page * page_size) + nat page_size) items)
            @ drop (nat (page * page_size) + nat page_size) items
          = drop (nat (page * page_size)) items"
      unfolding t d by (rule append_take_drop_id)
    then show ?thesis
      using True by (subst collect_pages.simps) (simp add: page_window_nonneg [OF s k] ih n)
  next
    case False
    then have "drop (nat (page * page_size)) (take (nat (page * page_size) + nat page_size) items)
                = drop (nat (page * page_size)) items"
      using s k by (simp add: nat_add_distrib [symmetric])
    then show ?thesis
      using False by (subst collect_pages.simps) (simp add: page_window_nonneg [OF s k])
  qed
qed

text \<open>
  Claim C4.  For a positive page size, the pages for the indices 0, 1, 2, ... up to the first
  one without \<open>has_more\<close>, put one after the other, are the list itself: the walk ends,
  and nothing is lost, repeated or reordered.
\<close>

theorem collect_pages_all:
  assumes "0 < page_size"
  shows "collect_pages items page_size 0 = Some items"
  using collect_pages_from [OF assms, of 0 items] by simp

theorem collect_pages_all_witness:
  "(0::int) < 5 \<and> collect_pages [1, 2, 3, 4, 5, 6, 7, 8, 9, 10, 11, 12 :: nat] 5 0
      = Some [1, 2, 3, 4, 5, 6, 7, 8, 9, 10, 11, 12]"
proof -
  have h: "(0::int) < 5" by simp
  show ?thesis using h collect_pages_all [OF h] by simp
qed
section \<open>The data source client: the claims\<close>

lemma base_symbol_upper_of_wf:
  assumes "perpBorrowing t \<noteq> Null" and "\<forall>m. perpBorrowing t = Val m \<longrightarrow> baseToken m \<noteq> Null"
  shows "base_symbol_upper_of R t = Inr (upper R (base_symbol_text t))"
  using assms
  by (auto simp: base_symbol_upper_of_def base_symbol_text_def get_dict_def or_else_def
        empty_market_def empty_token_def split: field.splits)

lemma filter_trades_wf:
  assumes "\<forall>t \<in> set ts. perpBorrowing t \<noteq> Null \<and> (\<forall>m. perpBorrowing t = Val m \<longrightarrow> baseToken m \<noteq> Null)"
  shows "filter_trades R u ts = Inr (filter (\<lambda>t. upper R (base_symbol_text t) = u) ts)"
  using assms by (induction ts) (simp_all add: base_symbol_upper_of_wf)

text \<open>
  The filter of \<open>fetch_trades\<close> on records whose market reference and base token are objects
  (not \<open>null\<close>): the query sent upstream does not carry the filter, and of the records
  fetched exactly those whose base-asset symbol equals the filter up to letter case are kept,
  in the order fetched.
\<close>

lemma fetch_trades_filter:
  assumes "query (a, is_open, limit) = Inr data"
      and "perp data = Val p"
      and "trades p = Val fetched"
      and "\<forall>t \<in> set fetched. perpBorrowing t \<noteq> Null \<and> (\<forall>m. perpBorrowing t = Val m \<longrightarrow> baseToken m \<noteq> Null)"
      and "b \<noteq> []"
  shows "fetch_trades R query a is_open limit (Some b)
           = Inr (Some (filter (\<lambda>t. upper R (base_symbol_text t) = upper R b) fetched))"
  using assms(1,2,3,5) by (simp add: fetch_trades_def get_dict_def filter_trades_wf [OF assms(4)])

lemma upper_ascii_samples:
  "upper R ''btc'' = ''BTC''" "upper R ''Btc'' = ''BTC''" "upper R ''BTC'' = ''BTC''"
  "upper R ''ETH'' = ''ETH''" "upper R ''Eth'' = ''ETH''"
  "upper R ''ZZZ'' = ''ZZZ''" "upper R ''AAA'' = ''AAA''"
  by (simp_all add: upper_def upper_char_def is_ascii_def)

lemma fetch_trades_filter_example:
  "fetch_trades R
     (\<lambda>v. Inr \<lparr>perp = Val \<lparr>trades = Val [sample_trade 1 ''BTC'', sample_trade 2 ''ETH'',
                                            sample_trade 3 ''BTC'']\<rparr>\<rparr>)
     ''nibi1abc'' None 100 (Some ''btc'')
   = Inr (Some [sample_trade 1 ''BTC'', sample_trade 3 ''BTC''])"
proof -
  let ?ts = "[sample_trade 1 ''BTC'', sample_trade 2 ''ETH'', sample_trade 3 ''BTC'']"
  let ?q = "\<lambda>v :: string \<times> bool option \<times> int. (Inr \<lparr>perp = Val \<lparr>trades = Val ?ts\<rparr>\<rparr> :: error + trades_data)"
  have h1: "?q (''nibi1abc'', None, 100) = Inr \<lparr>perp = Val \<lparr>trades = Val ?ts\<rparr>\<rparr>" by simp
  have h2: "perp \<lparr>perp = Val \<lparr>trades = Val ?ts\<rparr>\<rparr> = Val \<lparr>trades = Val ?ts\<rparr>" by simp
  have h3: "trades \<lparr>trades = Val ?ts\<rparr> = Val ?ts" by simp
  have h4: "\<forall>t \<in> set ?ts. perpBorrowing t \<noteq> Null \<and> (\<forall>m. perpBorrowing t = Val m \<longrightarrow> baseToken m \<noteq> Null)"
    by (auto simp: sample_trade_def)
  have h5: "''btc'' \<noteq> []" by simp
  have s: "base_symbol_text (sample_trade i x) = x" for i x
    by (simp add: sample_trade_def sample_token_def base_symbol_text_def)
  show ?thesis
    using fetch_trades_filter [OF h1 h2 h3 h4 h5, of R]
    by (simp add: s upper_ascii_samples)
qed

text \<open>
  Claim C6, at a fetched list that holds a record with \<open>"baseToken": null\<close>.  The condition
  of the filter reads the symbol with \<open>.get("baseToken", {}).get("symbol", "")\<close>: the default
  replaces an absent key only, \<open>None.get\<close> raises \<open>AttributeError\<close>, and \<open>fetch_trades\<close> returns
  no list at all, where the claim keeps the two records whose base symbol is BTC.
\<close>

theorem fetch_trades_null_base_token_raises:
  "fetch_trades R
     (\<lambda>v. Inr \<lparr>perp = Val \<lparr>trades = Val [sample_trade 1 ''BTC'', null_base_trade 2,
                                            sample_trade 3 ''BTC'']\<rparr>\<rparr>)
     trader_addr is_open limit (Some ''btc'')
   = Inl AttributeError"
  by (simp add: fetch_trades_def get_dict_def base_symbol_upper_of_def sample_trade_def
        null_base_trade_def)

lemma scan_prices_find:
  "scan_prices R u ps = find (\<lambda>p. upper R (price_symbol_text p) = u) ps"
  by (induction ps)
     (auto simp: price_symbol_text_def or_else_def empty_token_def split: field.splits)

text \<open>
  Claim C7.  The single-price lookup fetches the whole price list (limit 200) and answers with
  the first record, in the order returned, whose token symbol equals the query up to letter
  case, and with \<open>None\<close> when there is none.
\<close>

theorem fetch_price_by_symbol_first:
  assumes "fetch_prices query 200 = Inr (Some prices)"
  shows "fetch_price_by_symbol R query symbol
           = Inr (find (\<lambda>p. upper R (price_symbol_text p) = upper R symbol) prices)"
  using assms by (simp add: fetch_price_by_symbol_def scan_prices_find)

theorem fetch_price_by_symbol_first_witness:
  "fetch_price_by_symbol sample_render
     (\<lambda>limit. Inr \<lparr>oracle_key = Val \<lparr>tokenPricesUsd =
         Val [sample_price (Val 1) (Val ''ETH''), sample_price (Val 2) (Val ''btc''),
              sample_price (Val 3) (Val ''BTC'')]\<rparr>\<rparr>)
     ''Btc''
   = Inr (Some (sample_price (Val 2) (Val ''btc'')))"
proof -
  let ?ps = "[sample_price (Val 1) (Val ''ETH''), sample_price (Val 2) (Val ''btc''),
              sample_price (Val 3) (Val ''BTC'')]"
  let ?q = "\<lambda>limit :: int. (Inr \<lparr>oracle_key = Val \<lparr>tokenPricesUsd = Val ?ps\<rparr>\<rparr> :: error + prices_data)"
  have h: "fetch_prices ?q 200 = Inr (Some ?ps)"
    by (simp add: fetch_prices_def get_dict_def)
  have s: "price_symbol_text (sample_price i (Val x)) = x" for i x
    by (simp add: sample_price_def sample_token_def price_symbol_text_def)
  show ?thesis
    using fetch_price_by_symbol_first [OF h, of sample_render "''Btc''"]
    by (simp add: s upper_ascii_samples)
qed

section \<open>The record formatters: the claims\<close>

lemma join_nonempty: "l \<noteq> [] \<Longrightarrow> join sep (l # ls) \<noteq> []"
  by (cases ls) simp_all

lemma heavy_rule_nonempty: "heavy_rule \<noteq> []"
  by (simp add: heavy_rule_def)

lemma market_line_total:
  "perpBorrowing trade \<noteq> Null \<Longrightarrow> \<exists>text. market_line trade = Inr text"
  by (cases "perpBorrowing trade") (simp_all add: market_line_def get_dict_def Let_def)

lemma market_line_null:
  "perpBorrowing trade = Null \<Longrightarrow> market_line trade = Inl AttributeError"
  by (simp add: market_line_def get_dict_def)

lemma format_trade_open_total:
  assumes "perpBorrowing trade \<noteq> Null"
  shows "\<exists>text. format_trade_open R trade = Inr text \<and> text \<noteq> []"
proof -
  obtain m where "market_line trade = Inr m"
    using market_line_total [OF assms] by blast
  then show ?thesis
    by (simp add: format_trade_open_def Let_def join_nonempty heavy_rule_nonempty)
qed

text \<open>The formatters take a market whose base token is \<open>null\<close>: they read it with \<open>or {}\<close>.\<close>

lemma null_base_trade_formats:
  "\<exists>text. format_trade_open R (null_base_trade i) = Inr text \<and> text \<noteq> []"
  by (rule format_trade_open_total) (simp add: null_base_trade_def)

lemma format_trade_closed_total:
  assumes "perpBorrowing trade \<noteq> Null"
  shows "\<exists>text. format_trade_closed R trade = Inr text \<and> text \<noteq> []"
proof -
  obtain m where "market_line trade = Inr m"
    using market_line_total [OF assms] by blast
  then show ?thesis
    by (simp add: format_trade_closed_def Let_def join_nonempty heavy_rule_nonempty)
qed

lemma format_price_single_nonempty: "format_price_single R p \<noteq> []"
  by (simp add: format_price_single_def Let_def money_bag_def split: option.splits)

text \<open>
  Claim C9.  Whatever optional key is absent or \<open>null\<close> (exit price, state block, block
  timestamps, token symbol and name, price, current collateral, and every other key but the
  market reference of the data model), \<open>format_trade_open\<close>, \<open>format_trade_closed\<close> and
  \<open>format_price_single\<close> return a text, which is not empty, and do not raise.
\<close>

theorem formatters_never_raise:
  assumes "perpBorrowing trade \<noteq> Null"
  shows "(\<exists>text. format_trade_open R trade = Inr text \<and> text \<noteq> [])
       \<and> (\<exists>text. format_trade_closed R trade = Inr text \<and> text \<noteq> [])
       \<and> format_price_single R price_data \<noteq> []"
  using format_trade_open_total [OF assms] format_trade_closed_total [OF assms]
        format_price_single_nonempty
  by blast

theorem formatters_never_raise_witness:
  "perpBorrowing bare_trade \<noteq> Null
   \<and> (\<exists>text. format_trade_open sample_render bare_trade = Inr text \<and> text \<noteq> [])
   \<and> (\<exists>text. format_trade_closed sample_render bare_trade = Inr text \<and> text \<noteq> [])
   \<and> format_price_single sample_render bare_price = ''Price not available for ?''"
proof -
  have h: "perpBorrowing bare_trade \<noteq> Null" by (simp add: bare_trade_def)
  have p: "format_price_single sample_render bare_price = ''Price not available for ?''"
    by (simp add: format_price_single_def bare_price_def or_else_def str_or_def get_def)
  show ?thesis
    using h p formatters_never_raise [OF h, of sample_render bare_price] by simp
qed


section \<open>The price ordering: the claims\<close>

lemma symbol_of_price:
  "or_else (tok_symbol (or_else (token p) empty_token)) [] = price_symbol_text p"
  by (simp add: or_else_def price_symbol_text_def empty_token_def split: field.splits)

lemma sort_key_of_split:
  "sort_key_of R p =
     (if popular R p then (0, Some (int (popular_rank R p)))
      else (1, case tok_id (or_else (token p) empty_token) of
                 Absent \<Rightarrow> Some 9999 | Null \<Rightarrow> None | Val i \<Rightarrow> Some i))"
  by (simp add: sort_key_of_def Let_def symbol_of_price popular_def popular_rank_def)

lemma sort_key_of_popular:
  "popular R p \<Longrightarrow> sort_key_of R p = (0, Some (int (popular_rank R p)))"
  by (simp add: sort_key_of_split)

lemma sort_key_of_other:
  "\<not> popular R p \<Longrightarrow>
     sort_key_of R p = (1, if id_is_null p then None else Some (id_or_sentinel p))"
  by (simp add: sort_key_of_split id_is_null_def id_or_sentinel_def or_else_def empty_token_def
        split: field.splits)

lemma id_null_sentinel: "id_is_null p \<Longrightarrow> id_or_sentinel p = 9999"
  by (simp add: id_is_null_def id_or_sentinel_def split: field.splits)

lemma ordered_keys:
  assumes "comparable (sort_key_of R a) (sort_key_of R b)"
      and "total_key (sort_key_of R a) \<le> total_key (sort_key_of R b)"
  shows "(popular R b \<longrightarrow> popular R a \<and> popular_rank R a \<le> popular_rank R b) \<and>
         (\<not> popular R a \<longrightarrow> \<not> popular R b \<and> id_or_sentinel a \<le> id_or_sentinel b)"
proof (cases "popular R a"; cases "popular R b")
  assume "popular R a" and "popular R b"
  then show ?thesis
    using assms(2) by (simp add: sort_key_of_popular total_key_def)
next
  assume "popular R a" and "\<not> popular R b"
  then show ?thesis by simp
next
  assume "\<not> popular R a" and "popular R b"
  then show ?thesis
    using assms(2) by (simp add: sort_key_of_popular sort_key_of_other total_key_def)
next
  assume "\<not> popular R a" and "\<not> popular R b"
  then show ?thesis
    using assms
    by (auto simp: sort_key_of_other total_key_def comparable_def id_null_sentinel
          split: if_splits)
qed

text \<open>The sort returns a list when no record outside the allow-list has \<open>"id": null\<close>.\<close>

lemma sorted_prices_returns:
  assumes "\<forall>p \<in> set prices. \<not> popular R p \<longrightarrow> \<not> id_is_null p"
  shows "\<exists>sp. sorted_prices R prices = Inr sp"
proof -
  have "comparable (sort_key_of R p) (sort_key_of R q)"
    if "p \<in> set prices" and "q \<in> set prices" for p q
    using assms that
    by (cases "popular R p"; cases "popular R q")
       (simp_all add: comparable_def sort_key_of_popular sort_key_of_other)
  then show ?thesis
    by (simp add: sorted_prices_def list_all_iff)
qed

text \<open>
  Claim C3, as the code has it.  The display order, where \<open>sorted\<close> returns one, is a
  rearrangement of the list in which the records whose symbol, in upper case, is in the
  allow-list come first, in the order of the allow-list, and the others follow by ascending
  token id, a record with a missing id being ordered as if its id were 9999: after the ids
  below 9999 and before the ids above.
\<close>

theorem sorted_prices_order:
  assumes "sorted_prices R prices = Inr sp"
  shows "mset sp = mset prices \<and>
           (\<forall>i j. i < j \<and> j < length sp \<longrightarrow>
              (popular R (sp ! j) \<longrightarrow>
                 popular R (sp ! i) \<and> popular_rank R (sp ! i) \<le> popular_rank R (sp ! j)) \<and>
              (\<not> popular R (sp ! i) \<longrightarrow>
                 \<not> popular R (sp ! j) \<and> id_or_sentinel (sp ! i) \<le> id_or_sentinel (sp ! j)))"
proof -
  let ?f = "\<lambda>p. total_key (sort_key_of R p)"
  have c: "list_all (\<lambda>p. list_all (\<lambda>q. comparable (sort_key_of R p) (sort_key_of R q)) prices) prices"
    and e: "sp = sort_key ?f prices"
    using assms by (auto simp: sorted_prices_def split: if_splits)
  have m: "mset sp = mset prices" by (simp add: e)
  have s: "sorted (map ?f sp)" unfolding e by (rule sorted_sort_key)
  have o: "(popular R (sp ! j) \<longrightarrow>
              popular R (sp ! i) \<and> popular_rank R (sp ! i) \<le> popular_rank R (sp ! j)) \<and>
           (\<not> popular R (sp ! i) \<longrightarrow>
              \<not> popular R (sp ! j) \<and> id_or_sentinel (sp ! i) \<le> id_or_sentinel (sp ! j))"
    if "i < j \<and> j < length sp" for i j
  proof -
    have "sp ! i \<in> set sp" and "sp ! j \<in> set sp"
      using that by simp_all
    then have i: "sp ! i \<in> set prices" and j: "sp ! j \<in> set prices"
      by (simp_all add: e)
    have k: "comparable (sort_key_of R (sp ! i)) (sort_key_of R (sp ! j))"
      using c i j by (simp add: list_all_iff)
    have "map ?f sp ! i \<le> map ?f sp ! j"
      by (rule sorted_nth_mono [OF s]) (use that in simp_all)
    then have l: "?f (sp ! i) \<le> ?f (sp ! j)"
      using that by simp
    show ?thesis
      by (rule ordered_keys [OF k l])
  qed
  show ?thesis
    using m o by blast
qed

lemma sort_key_of_sample:
  "sort_key_of R (sample_price i (Val s)) =
     (if upper R s \<in> set POPULAR_TOKENS then (0, Some (int (index_of (upper R s) POPULAR_TOKENS)))
      else (1, case i of Absent \<Rightarrow> Some 9999 | Null \<Rightarrow> None | Val n \<Rightarrow> Some n))"
  by (simp add: sort_key_of_def sample_price_def sample_token_def or_else_def)

lemma sort_key_samples:
  "sort_key_of R (sample_price (Val 40) (Val ''ZZZ'')) = (1, Some 40)"
  "sort_key_of R (sample_price (Val 10000) (Val ''ZZZ'')) = (1, Some 10000)"
  "sort_key_of R (sample_price (Val 30) (Val ''AAA'')) = (1, Some 30)"
  "sort_key_of R (sample_price Absent (Val ''AAA'')) = (1, Some 9999)"
  "sort_key_of R (sample_price (Val 1) (Val ''btc'')) = (0, Some 0)"
  "sort_key_of R (sample_price Absent (Val ''Eth'')) = (0, Some 1)"
  by (simp_all add: sort_key_of_sample upper_ascii_samples POPULAR_TOKENS_def)

text \<open>
  The sentinel 9999 is not above every id: a record without an id comes before a record whose
  id is 10000.
\<close>

theorem sorted_prices_sentinel_counterexample:
  "sorted_prices sample_render
     [sample_price (Val 10000) (Val ''ZZZ''), sample_price Absent (Val ''AAA'')]
     = Inr [sample_price Absent (Val ''AAA''), sample_price (Val 10000) (Val ''ZZZ'')]"
  by (simp add: sorted_prices_def comparable_def total_key_def sort_key_samples)

theorem sorted_prices_order_witness:
  "sorted_prices sample_render
     [sample_price (Val 40) (Val ''ZZZ''), sample_price (Val 1) (Val ''btc''),
      sample_price (Val 30) (Val ''AAA''), sample_price Absent (Val ''Eth'')]
     = Inr [sample_price (Val 1) (Val ''btc''), sample_price Absent (Val ''Eth''),
            sample_price (Val 30) (Val ''AAA''), sample_price (Val 40) (Val ''ZZZ'')]
   \<and> mset [sample_price (Val 1) (Val ''btc''), sample_price Absent (Val ''Eth''),
            sample_price (Val 30) (Val ''AAA''), sample_price (Val 40) (Val ''ZZZ'')]
     = mset [sample_price (Val 40) (Val ''ZZZ''), sample_price (Val 1) (Val ''btc''),
             sample_price (Val 30) (Val ''AAA''), sample_price Absent (Val ''Eth'')]"
proof -
  have r: "sorted_prices sample_render
             [sample_price (Val 40) (Val ''ZZZ''), sample_price (Val 1) (Val ''btc''),
              sample_price (Val 30) (Val ''AAA''), sample_price Absent (Val ''Eth'')]
       = Inr [sample_price (Val 1) (Val ''btc''), sample_price Absent (Val ''Eth''),
              sample_price (Val 30) (Val ''AAA''), sample_price (Val 40) (Val ''ZZZ'')]"
    by (simp add: sorted_prices_def comparable_def total_key_def sort_key_samples)
  show ?thesis
    using r sorted_prices_order [OF r] by blast
qed

section \<open>The callback dispatcher and the prices command: the claims\<close>

lemma split_field:
  assumes "c \<notin> set a"
  shows "split c (Suc n) (a @ c # rest) = a # split c n rest"
proof -
  have t: "takeWhile (\<lambda>x. x \<noteq> c) (a @ c # rest) = a"
    using assms by (induction a) auto
  have d: "dropWhile (\<lambda>x. x \<noteq> c) (a @ c # rest) = c # rest"
    using assms by (induction a) auto
  show ?thesis by (simp add: t d)
qed

lemma split_trades_next:
  assumes "CHR '':'' \<notin> set address" and "CHR '':'' \<notin> set trade_type"
  shows "split CHR '':'' 3 (''trades_next:'' @ address @ '':'' @ trade_type @ '':'' @ page_str)
           = [''trades_next'', address, trade_type, page_str]"
proof -
  have n: "(3::nat) = Suc (Suc (Suc 0))" by simp
  have h: "CHR '':'' \<notin> set ''trades_next''" by simp
  have "split CHR '':'' (Suc (Suc (Suc 0)))
          (''trades_next'' @ CHR '':'' # address @ CHR '':'' # trade_type @ CHR '':'' # page_str)
        = [''trades_next'', address, trade_type, page_str]"
    by (simp only: split_field [OF h] split_field [OF assms(1)] split_field [OF assms(2)] split.simps(1))
  then show ?thesis by (simp add: n)
qed

lemma startswith_append: "startswith (p @ s) p"
  by (simp add: startswith_def)

lemma startswith_trades_not_prices:
  "startswith d ''trades_next:'' \<Longrightarrow> d \<noteq> ''prices_next'' \<and> d \<noteq> []"
  by (auto simp: startswith_def)

text \<open>
  A trade pagination action whose page index \<open>int\<close> reads and whose result set is not in
  \<open>user_data\<close> is answered by the fixed text that asks for \<open>/trades\<close> again, as an edit of
  the message; \<open>user_data\<close> is unchanged and no exception leaves the handler.
\<close>

lemma callback_expired:
  assumes "CHR '':'' \<notin> set address" and "CHR '':'' \<notin> set trade_type"
      and "py_int R page_str = Inr page"
      and "user_data (''trades_'' @ trade_type @ ''_'' @ address) = None"
  shows "callback_handler R query
           (Some (Some (''trades_next:'' @ address @ '':'' @ trade_type @ '':'' @ page_str))) user_data
         = (user_data,
            [Answer, Edit_message_text ''Trades data expired. Please run /trades again.'' None],
            None)"
proof -
  let ?d = "''trades_next:'' @ address @ '':'' @ trade_type @ '':'' @ page_str"
  have s: "startswith ?d ''trades_next:''" by (rule startswith_append)
  have p: "split CHR '':'' 3 ?d = [''trades_next'', address, trade_type, page_str]"
    by (rule split_trades_next [OF assms(1,2)])
  show ?thesis
    using startswith_trades_not_prices [OF s] s assms(3,4)
    by (simp add: callback_handler_def p expired_message_def del: append.simps)
qed

text \<open>
  When \<open>int\<close> does not read the page index, its exception leaves the handler before
  \<open>user_data\<close> is looked at.
\<close>

lemma callback_unreadable_page:
  assumes "CHR '':'' \<notin> set address" and "CHR '':'' \<notin> set trade_type"
      and "py_int R page_str = Inl e"
  shows "callback_handler R query
           (Some (Some (''trades_next:'' @ address @ '':'' @ trade_type @ '':'' @ page_str))) user_data
         = (user_data, [Answer], Some e)"
proof -
  let ?d = "''trades_next:'' @ address @ '':'' @ trade_type @ '':'' @ page_str"
  have s: "startswith ?d ''trades_next:''" by (rule startswith_append)
  have p: "split CHR '':'' 3 ?d = [''trades_next'', address, trade_type, page_str]"
    by (rule split_trades_next [OF assms(1,2)])
  show ?thesis
    using startswith_trades_not_prices [OF s] s assms(3)
    by (simp add: callback_handler_def p del: append.simps)
qed

lemma py_int_samples:
  "py_int R ''abc'' = Inl ValueError" "py_int R ''two'' = Inl ValueError" "py_int R ''3'' = Inr 3"
  by (simp_all add: py_int_def strip_def is_space_def is_ascii_def digit_value_def Let_def)

text \<open>
  Claim C2, at a payload of four fields whose page index is not a number: \<open>int\<close> raises
  \<open>ValueError\<close> outside any \<open>try\<close>, and the exception leaves \<open>callback_handler\<close>.
\<close>

theorem callback_non_numeric_page_raises:
  "callback_handler R query (Some (Some ''trades_next:nibi1abc:open:abc'')) user_data
     = (user_data, [Answer], Some ValueError)"
  using callback_unreadable_page [of "''nibi1abc''" "''open''" R "''abc''" ValueError query user_data]
  by (simp add: py_int_samples)

text \<open>
  Claim C8, at an action whose result set is not in \<open>user_data\<close> (nothing is stored) and
  whose page index is not a number: \<open>int\<close> is called before the store is looked at, so the
  text that asks for \<open>/trades\<close> again is not sent and \<open>ValueError\<close> leaves the handler.
\<close>

theorem callback_expired_unreadable_page_raises:
  "callback_handler R query (Some (Some ''trades_next:0xabc123:closed:two'')) Map.empty
     = (Map.empty, [Answer], Some ValueError)"
  using callback_unreadable_page [of "''0xabc123''" "''closed''" R "''two''" ValueError query Map.empty]
  by (simp add: py_int_samples)

lemma callback_expired_example:
  "callback_handler R query (Some (Some ''trades_next:nibi1abc:open:3'')) Map.empty
   = (Map.empty,
      [Answer, Edit_message_text ''Trades data expired. Please run /trades again.'' None],
      None)"
proof -
  have h1: "CHR '':'' \<notin> set ''nibi1abc''" and h2: "CHR '':'' \<notin> set ''open''" by simp_all
  have h4: "(Map.empty :: user_data) (''trades_'' @ ''open'' @ ''_'' @ ''nibi1abc'') = None" by simp
  show ?thesis
    using callback_expired [OF h1 h2 py_int_samples(3) h4, of R query]
    by simp
qed

lemma send_trades_page_no_fetch:
  "send_trades_page R address ts trade_type page page_size is_edit \<noteq> Inr (Fetch_prices limit)"
  by (auto simp: send_trades_page_def Let_def split: sum.splits prod.splits if_splits)

lemma callback_trades_frame:
  assumes "startswith d ''trades_next:''"
  shows "fst (callback_handler R query (Some (Some d)) user_data) = user_data"
    and "Fetch_prices limit \<notin> set (fst (snd (callback_handler R query (Some (Some d)) user_data)))"
  using startswith_trades_not_prices [OF assms]
  by (auto simp: callback_handler_def Let_def expired_message_def send_trades_page_no_fetch
        split: sum.splits option.splits stored.splits list.splits)

lemma callback_other_keys:
  assumes "key \<noteq> ''prices_page''"
  shows "fst (callback_handler R query callback_query user_data) key = user_data key"
  using assms
  by (auto simp: callback_handler_def Let_def
        split: sum.splits option.splits stored.splits list.splits prod.splits)

text \<open>
  Claim C5, as the code has it.  A trade pagination action is served from \<open>user_data\<close> alone:
  the handler fetches nothing and leaves \<open>user_data\<close> as it was, whatever the payload.  Any
  callback action leaves every entry of \<open>user_data\<close> but the page counter \<open>"prices_page"\<close> as it
  was, the stored result sets among them.
\<close>

theorem callback_store_frame:
  "case callback_handler R query (Some (Some d)) user_data of
     (user_data', effects, raised) \<Rightarrow>
       (startswith d ''trades_next:'' \<longrightarrow>
          user_data' = user_data \<and> (\<forall>limit. Fetch_prices limit \<notin> set effects))
     \<and> (\<forall>key. key \<noteq> ''prices_page'' \<longrightarrow> user_data' key = user_data key)"
proof -
  obtain u e r where c: "callback_handler R query (Some (Some d)) user_data = (u, e, r)"
    by (cases "callback_handler R query (Some (Some d)) user_data") auto
  have 1: "u = user_data \<and> Fetch_prices limit \<notin> set e" if "startswith d ''trades_next:''" for limit
    using callback_trades_frame [OF that] c by (metis fst_conv snd_conv)
  have 2: "u key = user_data key" if "key \<noteq> ''prices_page''" for key
    using callback_other_keys [OF that] c by (metis fst_conv)
  show ?thesis
    unfolding c using 1 2 by auto
qed

text \<open>A payload with fewer than four fields is ignored.\<close>

lemma callback_too_few_fields:
  assumes "startswith d ''trades_next:''" and "length (split CHR '':'' 3 d) \<noteq> 4"
  shows "callback_handler R query (Some (Some d)) user_data = (user_data, [Answer], None)"
  using startswith_trades_not_prices [OF assms(1)] assms
  by (simp add: callback_handler_def Let_def)

text \<open>
  The price pagination action does fetch: it asks the data source for the price list again and
  stores the advanced page counter.
\<close>

theorem callback_prices_next_fetches_counterexample:
  "callback_handler sample_render (\<lambda>limit. Inr \<lparr>oracle_key = Val \<lparr>tokenPricesUsd = Val []\<rparr>\<rparr>)
     (Some (Some ''prices_next'')) Map.empty
   = (Map.empty(''prices_page'' \<mapsto> VInt 1),
      [Answer, Fetch_prices 200, Edit_message_text ''No prices found.'' None],
      None)"
  by (simp add: callback_handler_def next_prices_page_def fetch_and_format_def fetch_prices_def
        get_dict_def format_prices_def)

theorem callback_store_frame_witness:
  "startswith ''trades_next:nibi1abc:open:0'' ''trades_next:''
   \<and> fst (callback_handler sample_render (\<lambda>limit. Inl (RequestError ''down''))
             (Some (Some ''trades_next:nibi1abc:open:0''))
             [''trades_open_nibi1abc'' \<mapsto> VTrades [sample_trade 1 ''BTC'']])
       = [''trades_open_nibi1abc'' \<mapsto> VTrades [sample_trade 1 ''BTC'']]
   \<and> Fetch_prices 200 \<notin> set (fst (snd (callback_handler sample_render (\<lambda>limit. Inl (RequestError ''down''))
             (Some (Some ''trades_next:nibi1abc:open:0''))
             [''trades_open_nibi1abc'' \<mapsto> VTrades [sample_trade 1 ''BTC'']])))"
proof -
  have s: "startswith ''trades_next:nibi1abc:open:0'' ''trades_next:''"
    by (simp add: startswith_def)
  show ?thesis
    using s callback_store_frame [where R = sample_render
                and query = "\<lambda>limit. Inl (RequestError ''down'')"
                and d = "''trades_next:nibi1abc:open:0''"
                and user_data = "[''trades_open_nibi1abc'' \<mapsto> VTrades [sample_trade 1 ''BTC'']]"]
    by (simp split: prod.splits)
qed

text \<open>
  Claim C10.  \<open>/prices\<close> without \<open>next\<close> sends page 0 and leaves \<open>user_data\<close>, the stored page
  counter included, as it was; the "Next" action that follows stores the old counter plus one
  and shows that page, not page 1.
\<close>

theorem prices_cmd_keeps_counter:
  assumes "args = [] \<or> lower (hd args) \<noteq> ''next''"
      and "user_data ''prices_page'' = Some (VInt n)"
  shows "prices_cmd R query args user_data
           = (user_data,
              (case fetch_and_format R query 0 of
                 (fetched, Inl e) \<Rightarrow>
                   fetched @ [Log_error (''Error fetching prices: '' @ str_exc R e),
                              Reply_text (''Error fetching prices: '' @ str_exc R e) None]
               | (fetched, Inr (text, reply_markup)) \<Rightarrow> fetched @ [Reply_text text reply_markup]),
              None)
       \<and> callback_handler R query' (Some (Some ''prices_next''))
             (fst (prices_cmd R query args user_data))
           = (user_data(''prices_page'' \<mapsto> VInt (n + 1)),
              (case fetch_and_format R query' (n + 1) of
                 (fetched, Inl e) \<Rightarrow>
                   [Answer] @ fetched @ [Log_error (''Error fetching prices: '' @ str_exc R e),
                                         Edit_message_text (''Error: '' @ str_exc R e) None]
               | (fetched, Inr (text, reply_markup)) \<Rightarrow>
                   [Answer] @ fetched @ [Edit_message_text text reply_markup]),
              None)"
proof -
  have c: "prices_cmd R query args user_data
           = (user_data,
              (case fetch_and_format R query 0 of
                 (fetched, Inl e) \<Rightarrow>
                   fetched @ [Log_error (''Error fetching prices: '' @ str_exc R e),
                              Reply_text (''Error fetching prices: '' @ str_exc R e) None]
               | (fetched, Inr (text, reply_markup)) \<Rightarrow> fetched @ [Reply_text text reply_markup]),
              None)"
    using assms(1) by (auto simp: prices_cmd_def Let_def split: prod.splits sum.splits)
  have n: "next_prices_page user_data = Inr (n + 1)"
    using assms(2) by (simp add: next_prices_page_def)
  show ?thesis
    unfolding c by (auto simp: callback_handler_def n Let_def split: prod.splits sum.splits)
qed

theorem prices_cmd_keeps_counter_witness:
  "prices_cmd sample_render (\<lambda>limit. Inr \<lparr>oracle_key = Val \<lparr>tokenPricesUsd = Val []\<rparr>\<rparr>) []
     [''prices_page'' \<mapsto> VInt 2]
   = ([''prices_page'' \<mapsto> VInt 2], [Fetch_prices 200, Reply_text ''No prices found.'' None], None)
   \<and> callback_handler sample_render (\<lambda>limit. Inr \<lparr>oracle_key = Val \<lparr>tokenPricesUsd = Val []\<rparr>\<rparr>)
       (Some (Some ''prices_next''))
       (fst (prices_cmd sample_render (\<lambda>limit. Inr \<lparr>oracle_key = Val \<lparr>tokenPricesUsd = Val []\<rparr>\<rparr>) []
               [''prices_page'' \<mapsto> VInt 2]))
   = ([''prices_page'' \<mapsto> VInt 3],
      [Answer, Fetch_prices 200, Edit_message_text ''No prices found.'' None], None)"
proof -
  let ?q = "\<lambda>limit :: int. (Inr \<lparr>oracle_key = Val \<lparr>tokenPricesUsd = Val []\<rparr>\<rparr> :: error + prices_data)"
  have h1: "([] :: string list) = [] \<or> lower (hd []) \<noteq> ''next''" by simp
  have h2: "[''prices_page'' \<mapsto> VInt 2] ''prices_page'' = Some (VInt 2)" by simp
  have f: "fetch_and_format sample_render ?q page = ([Fetch_prices 200], Inr (''No prices found.'', None))"
    for page
    by (simp add: fetch_and_format_def fetch_prices_def get_dict_def format_prices_def)
  show ?thesis
    using prices_cmd_keeps_counter [where args = "[]" and n = 2 and R = sample_render
            and user_data = "[''prices_page'' \<mapsto> VInt 2]" and query = ?q and query' = ?q, OF h1 h2]
    by (auto simp: f)
qed


end
